theory Spec2Isabelle
  imports Main "HOL-Library.AList" "HOL-Library.Sublist"
begin

section \<open>Python values\<close>

text \<open>
  The visual state is a dataclass whose field annotations are not enforced at run time,
  and it is reloaded from JSON snapshots. Its fields therefore hold arbitrary JSON-like
  Python values: \<open>None\<close>, booleans, integers, strings, lists and string-keyed
  dictionaries (an association list, in insertion order). Floating-point numbers are
  not covered. A \<open>char\<close> stands for one character of a Python string.
\<close>

datatype pyval =
    PNone
  | PBool bool
  | PInt int
  | PStr string
  | PList "pyval list"
  | PDict "(string \<times> pyval) list"

datatype py_error = TypeError | KeyError | AttributeError | IndexError | ValueError

text \<open>Truth value testing, as \<open>if x:\<close> does it.\<close>

fun truthy :: "pyval \<Rightarrow> bool" where
  "truthy PNone = False"
| "truthy (PBool b) = b"
| "truthy (PInt i) = (i \<noteq> 0)"
| "truthy (PStr s) = (s \<noteq> [])"
| "truthy (PList xs) = (xs \<noteq> [])"
| "truthy (PDict kvs) = (kvs \<noteq> [])"

text \<open>
  Formatting inside an f-string: a string is inserted as it is; every other value goes
  through Python's built-in \<open>str()\<close>, which is taken as the parameter \<open>fmt\<close>.
\<close>

definition py_str :: "(pyval \<Rightarrow> string) \<Rightarrow> pyval \<Rightarrow> string" where
  "py_str fmt v = (case v of PStr s \<Rightarrow> s | _ \<Rightarrow> fmt v)"

text \<open>\<open>sep.join(parts)\<close> on a list of strings.\<close>

fun str_join :: "string \<Rightarrow> string list \<Rightarrow> string" where
  "str_join sep [] = []"
| "str_join sep [x] = x"
| "str_join sep (x # y # ys) = x @ sep @ str_join sep (y # ys)"

text \<open>\<open>d.get(k, default)\<close> on a dictionary.\<close>

definition dict_get :: "(string \<times> pyval) list \<Rightarrow> string \<Rightarrow> pyval \<Rightarrow> pyval" where
  "dict_get d k dflt = (case map_of d k of Some v \<Rightarrow> v | None \<Rightarrow> dflt)"

text \<open>\<open>obj.get(k, default)\<close> on any value: only a dictionary has the method.\<close>

definition py_get :: "pyval \<Rightarrow> string \<Rightarrow> pyval \<Rightarrow> py_error + pyval" where
  "py_get obj k dflt = (case obj of PDict d \<Rightarrow> Inr (dict_get d k dflt) | _ \<Rightarrow> Inl AttributeError)"

text \<open>\<open>obj[k]\<close> with a string key: a missing key is a KeyError, any other kind of value
  cannot be indexed by a string.\<close>

definition getitem_str :: "pyval \<Rightarrow> string \<Rightarrow> py_error + pyval" where
  "getitem_str obj k =
     (case obj of
        PDict d \<Rightarrow> (case map_of d k of Some v \<Rightarrow> Inr v | None \<Rightarrow> Inl KeyError)
      | _ \<Rightarrow> Inl TypeError)"

text \<open>\<open>obj[k] = v\<close> with a string key: a dictionary keeps the position of an existing key
  and appends a new one.\<close>

definition setitem_str :: "pyval \<Rightarrow> string \<Rightarrow> pyval \<Rightarrow> py_error + pyval" where
  "setitem_str obj k v =
     (case obj of PDict d \<Rightarrow> Inr (PDict (AList.update k v d)) | _ \<Rightarrow> Inl TypeError)"

text \<open>\<open>obj[0]\<close>.\<close>

definition getitem_0 :: "pyval \<Rightarrow> py_error + pyval" where
  "getitem_0 obj =
     (case obj of
        PList xs \<Rightarrow> (case xs of [] \<Rightarrow> Inl IndexError | x # _ \<Rightarrow> Inr x)
      | PStr s \<Rightarrow> (case s of [] \<Rightarrow> Inl IndexError | c # _ \<Rightarrow> Inr (PStr [c]))
      | PDict d \<Rightarrow> Inl KeyError
      | _ \<Rightarrow> Inl TypeError)"

text \<open>Iteration (\<open>for x in obj\<close>): the elements of a list, the characters of a string,
  the keys of a dictionary.\<close>

definition py_iter :: "pyval \<Rightarrow> py_error + pyval list" where
  "py_iter obj =
     (case obj of
        PList xs \<Rightarrow> Inr xs
      | PStr s \<Rightarrow> Inr (map (\<lambda>c. PStr [c]) s)
      | PDict d \<Rightarrow> Inr (map (\<lambda>kv. PStr (fst kv)) d)
      | _ \<Rightarrow> Inl TypeError)"

text \<open>\<open>obj[:3]\<close>. Slicing a dictionary raises (a TypeError before Python 3.12).\<close>

definition slice_3 :: "pyval \<Rightarrow> py_error + pyval" where
  "slice_3 obj =
     (case obj of
        PList xs \<Rightarrow> Inr (PList (take 3 xs))
      | PStr s \<Rightarrow> Inr (PStr (take 3 s))
      | _ \<Rightarrow> Inl TypeError)"

fun strs_of :: "pyval list \<Rightarrow> string list option" where
  "strs_of [] = Some []"
| "strs_of (x # xs) =
     (case x of
        PStr s \<Rightarrow> (case strs_of xs of Some ss \<Rightarrow> Some (s # ss) | None \<Rightarrow> None)
      | _ \<Rightarrow> None)"

text \<open>\<open>sep.join(obj)\<close>: every item of the iterable must be a string.\<close>

definition py_join :: "string \<Rightarrow> pyval \<Rightarrow> py_error + string" where
  "py_join sep obj =
     (case py_iter obj of
        Inl e \<Rightarrow> Inl e
      | Inr xs \<Rightarrow> (case strs_of xs of Some ss \<Rightarrow> Inr (str_join sep ss) | None \<Rightarrow> Inl TypeError))"

text \<open>
  \<open>int(x)\<close>: an integer is itself, a boolean is 0 or 1, a string is parsed by
  Python's built-in parser, taken as the parameter \<open>int_of_str\<close> (\<open>None\<close> where it
  raises ValueError); nothing else converts.
\<close>

definition py_int :: "(string \<Rightarrow> int option) \<Rightarrow> pyval \<Rightarrow> py_error + int" where
  "py_int int_of_str v =
     (case v of
        PInt i \<Rightarrow> Inr i
      | PBool b \<Rightarrow> Inr (if b then 1 else 0)
      | PStr s \<Rightarrow> (case int_of_str s of Some i \<Rightarrow> Inr i | None \<Rightarrow> Inl ValueError)
      | _ \<Rightarrow> Inl TypeError)"

section \<open>VisualState\<close>

record VisualState =
  reference_image_url :: pyval
  primary_colors :: pyval
  art_style :: pyval
  main_characters :: pyval
  setting :: pyval
  lighting :: pyval
  atmosphere :: pyval
  camera_style :: pyval
  composition :: pyval
  current_segment :: pyval
  previous_scene_summary :: pyval
  seed :: pyval

text \<open>\<open>__post_init__\<close>: a \<open>None\<close> sequence becomes the empty list.\<close>

definition post_init :: "VisualState \<Rightarrow> VisualState" where
  "post_init vs =
     (let vs1 = (if primary_colors vs = PNone then vs\<lparr>primary_colors := PList []\<rparr> else vs)
      in if main_characters vs1 = PNone then vs1\<lparr>main_characters := PList []\<rparr> else vs1)"

text \<open>\<open>VisualState()\<close>: the dataclass defaults, then \<open>__post_init__\<close>.\<close>

definition VisualState_init :: VisualState where
  "VisualState_init =
     post_init
       \<lparr> reference_image_url = PNone,
         primary_colors = PNone,
         art_style = PStr ''hand-drawn cartoon illustration'',
         main_characters = PNone,
         setting = PStr '''',
         lighting = PStr ''bright, warm lighting'',
         atmosphere = PStr ''cheerful, educational'',
         camera_style = PStr ''medium shot, eye level'',
         composition = PStr ''centered, balanced'',
         current_segment = PStr ''hook'',
         previous_scene_summary = PStr '''',
         seed = PNone \<rparr>"

definition field_names :: "string list" where
  "field_names =
     [''reference_image_url'', ''primary_colors'', ''art_style'', ''main_characters'',
      ''setting'', ''lighting'', ''atmosphere'', ''camera_style'', ''composition'',
      ''current_segment'', ''previous_scene_summary'', ''seed'']"

text \<open>\<open>to_dict\<close> is \<open>asdict(self)\<close>: every field under its name, in field order, lists and
  dictionaries copied.\<close>

definition to_dict :: "VisualState \<Rightarrow> (string \<times> pyval) list" where
  "to_dict vs =
     [(''reference_image_url'', reference_image_url vs),
      (''primary_colors'', primary_colors vs),
      (''art_style'', art_style vs),
      (''main_characters'', main_characters vs),
      (''setting'', setting vs),
      (''lighting'', lighting vs),
      (''atmosphere'', atmosphere vs),
      (''camera_style'', camera_style vs),
      (''composition'', composition vs),
      (''current_segment'', current_segment vs),
      (''previous_scene_summary'', previous_scene_summary vs),
      (''seed'', seed vs)]"

text \<open>
  \<open>from_dict\<close> is \<open>cls(**data)\<close>: the generated constructor rejects a keyword that is
  not a field (TypeError), gives an absent field its default, stores every value as it
  comes, and runs \<open>__post_init__\<close>.
\<close>

definition from_dict :: "(string \<times> pyval) list \<Rightarrow> py_error + VisualState" where
  "from_dict data =
     (if list_all (\<lambda>k. k \<in> set field_names) (map fst data) then
        Inr (post_init
          \<lparr> reference_image_url = dict_get data ''reference_image_url'' PNone,
            primary_colors = dict_get data ''primary_colors'' PNone,
            art_style = dict_get data ''art_style'' (PStr ''hand-drawn cartoon illustration''),
            main_characters = dict_get data ''main_characters'' PNone,
            setting = dict_get data ''setting'' (PStr ''''),
            lighting = dict_get data ''lighting'' (PStr ''bright, warm lighting''),
            atmosphere = dict_get data ''atmosphere'' (PStr ''cheerful, educational''),
            camera_style = dict_get data ''camera_style'' (PStr ''medium shot, eye level''),
            composition = dict_get data ''composition'' (PStr ''centered, balanced''),
            current_segment = dict_get data ''current_segment'' (PStr ''hook''),
            previous_scene_summary = dict_get data ''previous_scene_summary'' (PStr ''''),
            seed = dict_get data ''seed'' PNone \<rparr>)
      else Inl TypeError)"

text \<open>The shape the field annotations describe.\<close>

definition is_str :: "pyval \<Rightarrow> bool" where
  "is_str v = (case v of PStr _ \<Rightarrow> True | _ \<Rightarrow> False)"

definition is_opt_str :: "pyval \<Rightarrow> bool" where
  "is_opt_str v = (case v of PNone \<Rightarrow> True | PStr _ \<Rightarrow> True | _ \<Rightarrow> False)"

definition is_opt_int :: "pyval \<Rightarrow> bool" where
  "is_opt_int v = (case v of PNone \<Rightarrow> True | PInt _ \<Rightarrow> True | _ \<Rightarrow> False)"

definition is_str_list :: "pyval \<Rightarrow> bool" where
  "is_str_list v = (case v of PList xs \<Rightarrow> list_all is_str xs | _ \<Rightarrow> False)"

definition is_character :: "pyval \<Rightarrow> bool" where
  "is_character v =
     (case v of
        PDict d \<Rightarrow>
          list_all (\<lambda>kv. is_str (snd kv)) d \<and>
          (case map_of d ''name'' of Some _ \<Rightarrow> True | None \<Rightarrow> False) \<and>
          (case map_of d ''description'' of Some _ \<Rightarrow> True | None \<Rightarrow> False)
      | _ \<Rightarrow> False)"

definition is_character_list :: "pyval \<Rightarrow> bool" where
  "is_character_list v = (case v of PList xs \<Rightarrow> list_all is_character xs | _ \<Rightarrow> False)"

definition valid_state :: "VisualState \<Rightarrow> bool" where
  "valid_state vs =
     (is_opt_str (reference_image_url vs) \<and> is_str_list (primary_colors vs) \<and>
      is_str (art_style vs) \<and> is_character_list (main_characters vs) \<and>
      is_str (setting vs) \<and> is_str (lighting vs) \<and> is_str (atmosphere vs) \<and>
      is_str (camera_style vs) \<and> is_str (composition vs) \<and> is_str (current_segment vs) \<and>
      is_str (previous_scene_summary vs) \<and> is_opt_int (seed vs))"

section \<open>VisualConsistencyManager\<close>

record VisualConsistencyManager =
  openrouter_api_key :: "string option"
  visual_state :: VisualState

definition VisualConsistencyManager_init :: "string option \<Rightarrow> VisualConsistencyManager" where
  "VisualConsistencyManager_init key =
     \<lparr> openrouter_api_key = key, visual_state = VisualState_init \<rparr>"

subsection \<open>Style extraction\<close>

text \<open>
  What the two HTTP calls gave: \<open>client.get\<close> raised or answered with a status code;
  \<open>client.post\<close> raised or answered with a status code and a body, whose
  \<open>response.json()\<close> is a value or raises (\<open>None\<close>).
\<close>

datatype http_get = GetRaised | GetResponse int

datatype http_post = PostRaised | PostResponse int "pyval option"

text \<open>\<open>data.get("choices", [{}])[0].get("message", {}).get("content", "{}")\<close>\<close>

definition vision_content :: "pyval \<Rightarrow> py_error + pyval" where
  "vision_content data =
     (case py_get data ''choices'' (PList [PDict []]) of
        Inl e \<Rightarrow> Inl e
      | Inr choices \<Rightarrow>
          (case getitem_0 choices of
             Inl e \<Rightarrow> Inl e
           | Inr choice \<Rightarrow>
               (case py_get choice ''message'' (PDict []) of
                  Inl e \<Rightarrow> Inl e
                | Inr message \<Rightarrow> py_get message ''content'' (PStr ''{}''))))"

text \<open>
  \<open>_analyze_with_vision\<close>: the parsed content of a 200 answer; the empty dictionary on
  any other status and on every exception. \<open>json.loads\<close> is the parameter
  \<open>json_loads\<close> (\<open>None\<close> where it raises).
\<close>

definition analyze_with_vision :: "(string \<Rightarrow> pyval option) \<Rightarrow> http_post \<Rightarrow> pyval" where
  "analyze_with_vision json_loads reply =
     (case reply of
        PostRaised \<Rightarrow> PDict []
      | PostResponse status body \<Rightarrow>
          if status = 200 then
            (case body of
               None \<Rightarrow> PDict []
             | Some data \<Rightarrow>
                 (case vision_content data of
                    Inl e \<Rightarrow> PDict []
                  | Inr content \<Rightarrow>
                      (case content of
                         PStr s \<Rightarrow> (case json_loads s of Some v \<Rightarrow> v | None \<Rightarrow> PDict [])
                       | _ \<Rightarrow> PDict [])))
          else PDict [])"

definition fallback_style :: pyval where
  "fallback_style =
     PDict [(''art_style'', PStr ''illustrated, colorful, kid-friendly''),
            (''primary_colors'', PList [PStr ''vibrant'', PStr ''saturated'']),
            (''atmosphere'', PStr ''educational, engaging'')]"

definition key_set :: "string option \<Rightarrow> bool" where
  "key_set k = (case k of None \<Rightarrow> False | Some s \<Rightarrow> s \<noteq> [])"

text \<open>
  \<open>extract_style_from_diagram\<close> returns the style dictionary and the manager. A failed
  download returns before the state is touched. After a download, the reference URL is
  stored first; the three \<open>style_analysis.get\<close> calls follow, and the first of them
  raises when the analysis is not a dictionary, which the handler turns into \<open>{}\<close>.
\<close>

definition extract_style_from_diagram ::
  "(string \<Rightarrow> pyval option) \<Rightarrow> VisualConsistencyManager \<Rightarrow> string \<Rightarrow> http_get \<Rightarrow> http_post
     \<Rightarrow> pyval \<times> VisualConsistencyManager" where
  "extract_style_from_diagram json_loads m diagram_url fetched reply =
     (case fetched of
        GetRaised \<Rightarrow> (PDict [], m)
      | GetResponse status \<Rightarrow>
          if status \<noteq> 200 then (PDict [], m)
          else
            (let style_analysis =
                   (if key_set (openrouter_api_key m) then analyze_with_vision json_loads reply
                    else fallback_style);
                 vs1 = (visual_state m)\<lparr>reference_image_url := PStr diagram_url\<rparr>
             in case style_analysis of
                  PDict d \<Rightarrow>
                    (style_analysis,
                     m\<lparr>visual_state := vs1
                        \<lparr>art_style := dict_get d ''art_style'' (art_style vs1),
                         primary_colors := dict_get d ''primary_colors'' (PList []),
                         atmosphere := dict_get d ''atmosphere'' (atmosphere vs1)\<rparr>\<rparr>)
                | _ \<Rightarrow> (PDict [], m\<lparr>visual_state := vs1\<rparr>)))"

subsection \<open>Session initialisation\<close>

definition age_style :: "int \<Rightarrow> string" where
  "age_style age =
     (if age < 6 then ''simple, bold shapes, primary colors''
      else if age < 10 then ''colorful cartoon illustration, friendly characters''
      else ''detailed illustration, realistic elements'')"

text \<open>\<open>initialize_from_video_session\<close>: the bare \<open>except\<close> swallows whatever
  \<open>int(child_age)\<close> raises.\<close>

definition initialize_from_video_session ::
  "(pyval \<Rightarrow> string) \<Rightarrow> (string \<Rightarrow> int option) \<Rightarrow> VisualConsistencyManager
     \<Rightarrow> (string \<times> pyval) list \<Rightarrow> VisualConsistencyManager" where
  "initialize_from_video_session fmt int_of_str m video_session_data =
     (let topic = dict_get video_session_data ''topic'' (PStr '''');
          child_age = dict_get video_session_data ''child_age'' PNone;
          child_interest = dict_get video_session_data ''child_interest'' (PStr '''');
          vs1 = (visual_state m)\<lparr>setting := PStr (''Scene related to '' @ py_str fmt topic)\<rparr>;
          vs2 = (if truthy child_age then
                   (case py_int int_of_str child_age of
                      Inl e \<Rightarrow> vs1
                    | Inr age \<Rightarrow> vs1\<lparr>art_style := PStr (age_style age)\<rparr>)
                 else vs1);
          vs3 = (if truthy child_interest then
                   vs2\<lparr>atmosphere := PStr (''engaging, '' @ py_str fmt child_interest @ '' themed'')\<rparr>
                 else vs2)
      in m\<lparr>visual_state := vs3\<rparr>)"

subsection \<open>Prompt synthesis\<close>

definition character_part :: "(pyval \<Rightarrow> string) \<Rightarrow> pyval \<Rightarrow> py_error + string" where
  "character_part fmt char =
     (case getitem_str char ''name'' of
        Inl e \<Rightarrow> Inl e
      | Inr n \<Rightarrow>
          (case getitem_str char ''description'' of
             Inl e \<Rightarrow> Inl e
           | Inr d \<Rightarrow> Inr (py_str fmt n @ '': '' @ py_str fmt d @ ''.'')))"

fun character_parts :: "(pyval \<Rightarrow> string) \<Rightarrow> pyval list \<Rightarrow> py_error + string list" where
  "character_parts fmt [] = Inr []"
| "character_parts fmt (c # cs) =
     (case character_part fmt c of
        Inl e \<Rightarrow> Inl e
      | Inr p \<Rightarrow>
          (case character_parts fmt cs of Inl e \<Rightarrow> Inl e | Inr ps \<Rightarrow> Inr (p # ps)))"

definition characters_clause :: "(pyval \<Rightarrow> string) \<Rightarrow> pyval \<Rightarrow> py_error + string list" where
  "characters_clause fmt chars =
     (if truthy chars then
        (case py_iter chars of Inl e \<Rightarrow> Inl e | Inr cs \<Rightarrow> character_parts fmt cs)
      else Inr [])"

definition colors_clause :: "pyval \<Rightarrow> py_error + string list" where
  "colors_clause colors =
     (if truthy colors then
        (case slice_3 colors of
           Inl e \<Rightarrow> Inl e
         | Inr first3 \<Rightarrow>
             (case py_join '', '' first3 of
                Inl e \<Rightarrow> Inl e
              | Inr colors_str \<Rightarrow> Inr [''Color palette: '' @ colors_str @ ''.'']))
      else Inr [])"

definition continuity_clause :: "(pyval \<Rightarrow> string) \<Rightarrow> VisualState \<Rightarrow> string \<Rightarrow> string list" where
  "continuity_clause fmt vs segment =
     (if truthy (previous_scene_summary vs) \<and> segment \<noteq> ''hook'' then
        [''Continuing from previous scene: '' @ py_str fmt (previous_scene_summary vs) @ ''.'']
      else [])"

definition video_clause :: "bool \<Rightarrow> string option \<Rightarrow> string list" where
  "video_clause is_video previous_frame =
     (if is_video then
        ''Smooth motion, cinematic camera movement.'' #
        (case previous_frame of
           None \<Rightarrow> []
         | Some f \<Rightarrow> if f \<noteq> [] then [''Matching previous frame: '' @ f @ ''.''] else [])
      else [])"

text \<open>The list \<open>prompt_parts\<close> as the body of \<open>generate_consistent_prompt\<close> builds it, or
  the exception raised on the way (the characters are read before the colors).\<close>

definition prompt_parts ::
  "(pyval \<Rightarrow> string) \<Rightarrow> VisualState \<Rightarrow> string \<Rightarrow> string \<Rightarrow> bool \<Rightarrow> string option
     \<Rightarrow> py_error + string list" where
  "prompt_parts fmt vs base_description segment is_video previous_frame =
     (case characters_clause fmt (main_characters vs) of
        Inl e \<Rightarrow> Inl e
      | Inr chars \<Rightarrow>
          (case colors_clause (primary_colors vs) of
             Inl e \<Rightarrow> Inl e
           | Inr colors \<Rightarrow>
               Inr (continuity_clause fmt vs segment @
                    [base_description,
                     ''Art style: '' @ py_str fmt (art_style vs) @ ''.'',
                     py_str fmt (lighting vs) @ '', '' @ py_str fmt (atmosphere vs) @ ''.''] @
                    chars @
                    (if truthy (setting vs) then [''Setting: '' @ py_str fmt (setting vs) @ ''.'']
                     else []) @
                    video_clause is_video previous_frame @
                    colors @
                    [py_str fmt (camera_style vs) @ '', '' @ py_str fmt (composition vs) @ ''.''])))"

text \<open>\<open>generate_consistent_prompt\<close>: the parts are built, then \<open>current_segment\<close> is
  assigned, then the parts are joined. An exception leaves before the assignment.\<close>

definition generate_consistent_prompt ::
  "(pyval \<Rightarrow> string) \<Rightarrow> VisualConsistencyManager \<Rightarrow> string \<Rightarrow> string \<Rightarrow> bool \<Rightarrow> string option
     \<Rightarrow> py_error + (string \<times> VisualConsistencyManager)" where
  "generate_consistent_prompt fmt m base_description segment is_video previous_frame =
     (case prompt_parts fmt (visual_state m) base_description segment is_video previous_frame of
        Inl e \<Rightarrow> Inl e
      | Inr parts \<Rightarrow>
          Inr (str_join '' '' parts,
               m\<lparr>visual_state := (visual_state m)\<lparr>current_segment := PStr segment\<rparr>\<rparr>))"

subsection \<open>Scene, characters, seed, snapshots\<close>

definition update_scene_context :: "VisualConsistencyManager \<Rightarrow> string \<Rightarrow> VisualConsistencyManager" where
  "update_scene_context m scene_description =
     m\<lparr>visual_state := (visual_state m)\<lparr>previous_scene_summary := PStr scene_description\<rparr>\<rparr>"

text \<open>
  The loop of \<open>define_character\<close> over the entries: \<open>Some\<close> of the updated entries when
  an entry of that name was found and its description replaced (the early return),
  \<open>None\<close> when the loop ran to its end.
\<close>

fun update_existing :: "pyval list \<Rightarrow> string \<Rightarrow> string \<Rightarrow> py_error + pyval list option" where
  "update_existing [] name description = Inr None"
| "update_existing (char # chars) name description =
     (case getitem_str char ''name'' of
        Inl e \<Rightarrow> Inl e
      | Inr n \<Rightarrow>
          if n = PStr name then
            (case setitem_str char ''description'' (PStr description) of
               Inl e \<Rightarrow> Inl e
             | Inr char' \<Rightarrow> Inr (Some (char' # chars)))
          else
            (case update_existing chars name description of
               Inl e \<Rightarrow> Inl e
             | Inr None \<Rightarrow> Inr None
             | Inr (Some chars') \<Rightarrow> Inr (Some (char # chars'))))"

definition new_character :: "string \<Rightarrow> string \<Rightarrow> pyval" where
  "new_character name description =
     PDict [(''name'', PStr name), (''description'', PStr description)]"

definition define_character ::
  "VisualConsistencyManager \<Rightarrow> string \<Rightarrow> string \<Rightarrow> py_error + VisualConsistencyManager" where
  "define_character m name description =
     (case py_iter (main_characters (visual_state m)) of
        Inl e \<Rightarrow> Inl e
      | Inr chars \<Rightarrow>
          (case update_existing chars name description of
             Inl e \<Rightarrow> Inl e
           | Inr (Some chars') \<Rightarrow>
               Inr (m\<lparr>visual_state := (visual_state m)\<lparr>main_characters := PList chars'\<rparr>\<rparr>)
           | Inr None \<Rightarrow>
               (case main_characters (visual_state m) of
                  PList xs \<Rightarrow>
                    Inr (m\<lparr>visual_state := (visual_state m)
                          \<lparr>main_characters := PList (xs @ [new_character name description])\<rparr>\<rparr>)
                | _ \<Rightarrow> Inl AttributeError)))"

text \<open>A sequence of \<open>define_character\<close> calls, stopping at the first exception.\<close>

fun define_characters ::
  "VisualConsistencyManager \<Rightarrow> (string \<times> string) list \<Rightarrow> py_error + VisualConsistencyManager" where
  "define_characters m [] = Inr m"
| "define_characters m (c # cs) =
     (case define_character m (fst c) (snd c) of
        Inl e \<Rightarrow> Inl e
      | Inr m' \<Rightarrow> define_characters m' cs)"

definition set_seed :: "VisualConsistencyManager \<Rightarrow> int \<Rightarrow> VisualConsistencyManager" where
  "set_seed m s = m\<lparr>visual_state := (visual_state m)\<lparr>seed := PInt s\<rparr>\<rparr>"

definition get_state :: "VisualConsistencyManager \<Rightarrow> (string \<times> pyval) list" where
  "get_state m = to_dict (visual_state m)"

definition load_state ::
  "VisualConsistencyManager \<Rightarrow> (string \<times> pyval) list \<Rightarrow> py_error + VisualConsistencyManager" where
  "load_state m state_dict =
     (case from_dict state_dict of
        Inl e \<Rightarrow> Inl e
      | Inr vs \<Rightarrow> Inr (m\<lparr>visual_state := vs\<rparr>))"

section \<open>VideoConsistencyHelper\<close>

record VideoConsistencyHelper =
  user_id :: string
  session_id :: string
  consistency_manager :: "VisualConsistencyManager option"
  previous_scene :: "string option"

definition VideoConsistencyHelper_init :: "string \<Rightarrow> string \<Rightarrow> VideoConsistencyHelper" where
  "VideoConsistencyHelper_init uid sid =
     \<lparr> user_id = uid, session_id = sid, consistency_manager = None, previous_scene = None \<rparr>"

text \<open>
  \<open>initialize\<close>: \<open>loaded\<close> is the snapshot read from storage and parsed, \<open>None\<close> when
  reading or parsing raised or the JSON text is not an object. Any exception, also one
  of \<open>load_state\<close>, leaves a fresh default manager and the answer \<open>False\<close>.
\<close>

definition initialize ::
  "VideoConsistencyHelper \<Rightarrow> (string \<times> pyval) list option \<Rightarrow> bool \<times> VideoConsistencyHelper" where
  "initialize h loaded =
     (case loaded of
        None \<Rightarrow> (False, h\<lparr>consistency_manager := Some (VisualConsistencyManager_init None)\<rparr>)
      | Some consistency_state \<Rightarrow>
          (case load_state (VisualConsistencyManager_init None) consistency_state of
             Inl e \<Rightarrow> (False, h\<lparr>consistency_manager := Some (VisualConsistencyManager_init None)\<rparr>)
           | Inr m \<Rightarrow> (True, h\<lparr>consistency_manager := Some m\<rparr>)))"

text \<open>
  \<open>enhance_video_prompt\<close> returns the prompt and the helper. Without a manager the base
  prompt comes back. With one, the handler around \<open>generate_consistent_prompt\<close> turns
  an exception into the base prompt; \<open>previous_scene\<close> is assigned after the call
  returned.
\<close>

definition enhance_video_prompt ::
  "(pyval \<Rightarrow> string) \<Rightarrow> VideoConsistencyHelper \<Rightarrow> string \<Rightarrow> string
     \<Rightarrow> string \<times> VideoConsistencyHelper" where
  "enhance_video_prompt fmt h base_prompt segment =
     (case consistency_manager h of
        None \<Rightarrow> (base_prompt, h)
      | Some m \<Rightarrow>
          (case generate_consistent_prompt fmt m base_prompt segment True (previous_scene h) of
             Inl e \<Rightarrow> (base_prompt, h)
           | Inr (enhanced, m') \<Rightarrow>
               (enhanced,
                h\<lparr>consistency_manager := Some m',
                  previous_scene := Some (''Previous '' @ segment @ '' segment'')\<rparr>)))"

section \<open>Notions used to state the properties\<close>

text \<open>The prompt a call returned, or the exception it raised.\<close>

definition returned_prompt ::
  "py_error + (string \<times> VisualConsistencyManager) \<Rightarrow> py_error + string" where
  "returned_prompt r = map_sum id fst r"

text \<open>The character entries that \<open>define_character\<close> itself creates, from a list of
  names and descriptions, and a manager holding such entries.\<close>

definition character_list :: "(string \<times> string) list \<Rightarrow> pyval" where
  "character_list al = PList (map (\<lambda>e. new_character (fst e) (snd e)) al)"

definition with_characters ::
  "VisualConsistencyManager \<Rightarrow> (string \<times> string) list \<Rightarrow> VisualConsistencyManager" where
  "with_characters m al = m\<lparr>visual_state := (visual_state m)\<lparr>main_characters := character_list al\<rparr>\<rparr>"

text \<open>
  What \<open>from_dict\<close> stores under a field name: the snapshot's value when the key is
  present, the construction default otherwise, and the empty list in place of a
  \<open>None\<close> sequence.
\<close>

definition sequence_field :: "string \<Rightarrow> bool" where
  "sequence_field k = (k = ''primary_colors'' \<or> k = ''main_characters'')"

definition stored_value :: "(string \<times> pyval) list \<Rightarrow> string \<Rightarrow> pyval" where
  "stored_value data k =
     (let v = dict_get data k (dict_get (to_dict VisualState_init) k PNone)
      in if v = PNone \<and> sequence_field k then PList [] else v)"

section \<open>Example inputs\<close>

text \<open>
  The examples instantiate the built-in conversions: \<open>example_fmt\<close> for \<open>str()\<close> (the
  formatted fields of the examples are strings, which never reach it) and
  \<open>int_of_digits\<close> for \<open>int()\<close> on a string, which reads a plain run of decimal
  digits.
\<close>

definition example_fmt :: "pyval \<Rightarrow> string" where
  "example_fmt v =
     (case v of PNone \<Rightarrow> ''None'' | PBool b \<Rightarrow> (if b then ''True'' else ''False'') | _ \<Rightarrow> ''?'')"

definition digit_value :: "char \<Rightarrow> int option" where
  "digit_value c = map_of (zip ''0123456789'' [0, 1, 2, 3, 4, 5, 6, 7, 8, 9]) c"

fun digits_from :: "int \<Rightarrow> string \<Rightarrow> int option" where
  "digits_from acc [] = Some acc"
| "digits_from acc (c # cs) =
     (case digit_value c of None \<Rightarrow> None | Some d \<Rightarrow> digits_from (10 * acc + d) cs)"

definition int_of_digits :: "string \<Rightarrow> int option" where
  "int_of_digits s = (if s = [] then None else digits_from 0 s)"

definition example_helper :: VideoConsistencyHelper where
  "example_helper = VideoConsistencyHelper_init ''user-1'' ''session-1''"

text \<open>A helper whose snapshot could not be read: it holds a default manager.\<close>

definition fresh_helper :: VideoConsistencyHelper where
  "fresh_helper = snd (initialize example_helper None)"

text \<open>A helper that loaded a snapshot whose only character has no description.\<close>

definition broken_snapshot :: "(string \<times> pyval) list" where
  "broken_snapshot = [(''main_characters'', PList [PDict [(''name'', PStr ''Drippy'')]])]"

definition broken_helper :: VideoConsistencyHelper where
  "broken_helper = snd (initialize example_helper (Some broken_snapshot))"

text \<open>A default manager that was told about the previous scene.\<close>

definition sprout_manager :: VisualConsistencyManager where
  "sprout_manager = update_scene_context (VisualConsistencyManager_init None) ''A seed sprouts''"

definition diagram_url_example :: string where
  "diagram_url_example = ''https://cdn.example/diagram.png''"

text \<open>A manager with a vision key whose state already holds a palette.\<close>

definition palette_manager :: VisualConsistencyManager where
  "palette_manager =
     \<lparr> openrouter_api_key = Some ''key'',
       visual_state = VisualState_init\<lparr>primary_colors := PList [PStr ''red'', PStr ''gold'']\<rparr> \<rparr>"

text \<open>A vision answer whose content is a JSON object with the art style only, and a
  \<open>json.loads\<close> that reads it.\<close>

definition watercolor_content :: string where
  "watercolor_content = ''{\"art_style\": \"watercolor\"}''"

definition watercolor_reply :: http_post where
  "watercolor_reply =
     PostResponse 200
       (Some (PDict [(''choices'',
          PList [PDict [(''message'', PDict [(''content'', PStr watercolor_content)])]])]))"

definition watercolor_loads :: "string \<Rightarrow> pyval option" where
  "watercolor_loads s =
     (if s = watercolor_content then Some (PDict [(''art_style'', PStr ''watercolor'')]) else None)"

section \<open>Properties\<close>

subsection \<open>Prompt synthesis: the continuity clause\<close>

lemma str_join_Cons: "ps \<noteq> [] \<Longrightarrow> str_join sep (p # ps) = p @ sep @ str_join sep ps"
  by (cases ps) simp_all

lemma continuity_clause_hook: "continuity_clause fmt vs ''hook'' = []"
  by (simp add: continuity_clause_def)

lemma continuity_clause_cleared:
  "continuity_clause fmt (vs\<lparr>previous_scene_summary := PStr ''''\<rparr>) segment = []"
  by (simp add: continuity_clause_def)

lemma continuity_clause_emitted:
  "truthy (previous_scene_summary vs) \<Longrightarrow> segment \<noteq> ''hook'' \<Longrightarrow>
   continuity_clause fmt vs segment =
     [''Continuing from previous scene: '' @ py_str fmt (previous_scene_summary vs) @ ''.'']"
  by (simp add: continuity_clause_def)

text \<open>The parts after the continuity clause do not depend on the segment or the summary.\<close>

lemma prompt_parts_split:
  "prompt_parts fmt vs base segment is_video previous_frame =
     map_sum id (\<lambda>ps. continuity_clause fmt vs segment @ ps)
       (prompt_parts fmt vs base ''hook'' is_video previous_frame)"
  by (simp add: prompt_parts_def continuity_clause_hook split: sum.splits)

lemma prompt_parts_hook_head:
  "prompt_parts fmt vs base ''hook'' is_video previous_frame = Inr ps \<Longrightarrow>
   \<exists>rest. ps = base # rest \<and> rest \<noteq> []"
  by (auto simp add: prompt_parts_def continuity_clause_hook split: sum.splits)

lemma prompt_parts_summary_irrelevant:
  "prompt_parts fmt (vs\<lparr>previous_scene_summary := s\<rparr>) base ''hook'' is_video previous_frame =
   prompt_parts fmt vs base ''hook'' is_video previous_frame"
  by (simp add: prompt_parts_def continuity_clause_hook split: sum.splits)

lemma prompt_parts_segment_irrelevant:
  "prompt_parts fmt (vs\<lparr>current_segment := c\<rparr>) base segment is_video previous_frame =
   prompt_parts fmt vs base segment is_video previous_frame"
  by (simp add: prompt_parts_def continuity_clause_def split: sum.splits)

lemma str_join_prefix: "prefix p (str_join sep (p # ps))"
  by (cases ps) simp_all

text \<open>
  Claim C1. For every state of the manager, a call with segment \<open>"hook"\<close> emits no
  continuity clause, however the previous scene summary is set: the call returns what
  it returns once the summary is cleared, and a returned prompt starts with the base
  description. For any other segment and a non-empty (truthy) summary, the returned
  prompt is the clause \<open>Continuing from previous scene: {summary}.\<close>, a space, and
  then the prompt of the hook call; it raises exactly when the hook call raises.
\<close>

theorem hook_has_no_continuity_clause:
  "returned_prompt (generate_consistent_prompt fmt m base ''hook'' is_video previous_frame) =
     returned_prompt
       (generate_consistent_prompt fmt (update_scene_context m '''') base ''hook'' is_video previous_frame)
   \<and> (\<forall>p m'. generate_consistent_prompt fmt m base ''hook'' is_video previous_frame = Inr (p, m')
        \<longrightarrow> prefix base p)
   \<and> (segment \<noteq> ''hook'' \<and> truthy (previous_scene_summary (visual_state m)) \<longrightarrow>
        returned_prompt (generate_consistent_prompt fmt m base segment is_video previous_frame) =
          map_sum id
            (\<lambda>p. ''Continuing from previous scene: '' @
                  py_str fmt (previous_scene_summary (visual_state m)) @ ''. '' @ p)
            (returned_prompt (generate_consistent_prompt fmt m base ''hook'' is_video previous_frame)))"
proof (intro conjI allI impI)
  show "returned_prompt (generate_consistent_prompt fmt m base ''hook'' is_video previous_frame) =
     returned_prompt
       (generate_consistent_prompt fmt (update_scene_context m '''') base ''hook'' is_video previous_frame)"
    by (simp add: returned_prompt_def generate_consistent_prompt_def update_scene_context_def
        prompt_parts_summary_irrelevant split: sum.splits)
next
  fix p m'
  assume "generate_consistent_prompt fmt m base ''hook'' is_video previous_frame = Inr (p, m')"
  then obtain ps where ps: "prompt_parts fmt (visual_state m) base ''hook'' is_video previous_frame = Inr ps"
    and p: "p = str_join '' '' ps"
    by (auto simp add: generate_consistent_prompt_def split: sum.splits)
  from prompt_parts_hook_head [OF ps] obtain rest where "ps = base # rest" by blast
  with p show "prefix base p" by (simp add: str_join_prefix)
next
  assume a: "segment \<noteq> ''hook'' \<and> truthy (previous_scene_summary (visual_state m))"
  let ?vs = "visual_state m"
  let ?c = "''Continuing from previous scene: '' @ py_str fmt (previous_scene_summary ?vs) @ ''.''"
  have cc: "continuity_clause fmt ?vs segment = [?c]"
    using a by (simp add: continuity_clause_emitted)
  show "returned_prompt (generate_consistent_prompt fmt m base segment is_video previous_frame) =
          map_sum id
            (\<lambda>p. ''Continuing from previous scene: '' @
                  py_str fmt (previous_scene_summary (visual_state m)) @ ''. '' @ p)
            (returned_prompt (generate_consistent_prompt fmt m base ''hook'' is_video previous_frame))"
  proof (cases "prompt_parts fmt ?vs base ''hook'' is_video previous_frame")
    case (Inl e)
    then have "prompt_parts fmt ?vs base segment is_video previous_frame = Inl e"
      by (subst prompt_parts_split) simp
    with Inl show ?thesis
      by (simp add: returned_prompt_def generate_consistent_prompt_def)
  next
    case (Inr ps)
    from prompt_parts_hook_head [OF Inr] have ne: "ps \<noteq> []" by blast
    have "prompt_parts fmt ?vs base segment is_video previous_frame = Inr (?c # ps)"
      by (subst prompt_parts_split) (simp add: Inr cc)
    with Inr ne show ?thesis
      by (simp add: returned_prompt_def generate_consistent_prompt_def str_join_Cons)
  qed
qed

subsection \<open>Prompt synthesis: valid states, and the segment\<close>

lemma character_parts_valid:
  "list_all is_character cs \<Longrightarrow> \<exists>ps. character_parts fmt cs = Inr ps"
proof (induction cs)
  case Nil
  show ?case by simp
next
  case (Cons c cs)
  then obtain ps where ps: "character_parts fmt cs = Inr ps" by auto
  from Cons.prems have "is_character c" by simp
  then obtain p where "character_part fmt c = Inr p"
    by (auto simp add: is_character_def character_part_def getitem_str_def
        split: pyval.splits option.splits)
  with ps show ?case by simp
qed

lemma characters_clause_valid:
  "is_character_list v \<Longrightarrow> \<exists>ps. characters_clause fmt v = Inr ps"
  by (auto simp add: is_character_list_def characters_clause_def py_iter_def
      character_parts_valid split: pyval.splits)

lemma strs_of_valid: "list_all is_str xs \<Longrightarrow> \<exists>ss. strs_of xs = Some ss"
  by (induction xs) (auto simp add: is_str_def split: pyval.splits)

lemma list_all_take: "list_all P xs \<Longrightarrow> list_all P (take n xs)"
  by (auto simp add: list_all_iff dest: in_set_takeD)

lemma colors_clause_valid:
  "is_str_list v \<Longrightarrow> \<exists>ps. colors_clause v = Inr ps"
proof (cases v)
  case (PList xs)
  assume "is_str_list v"
  with PList have "list_all is_str (take 3 xs)"
    by (simp add: is_str_list_def list_all_take)
  from strs_of_valid [OF this] obtain ss where "strs_of (take 3 xs) = Some ss" ..
  with PList show ?thesis
    by (simp add: colors_clause_def slice_3_def py_join_def py_iter_def)
qed (simp_all add: is_str_list_def)

lemma prompt_parts_valid:
  assumes "valid_state vs"
  shows "\<exists>ps. prompt_parts fmt vs base segment is_video previous_frame = Inr ps"
proof -
  from assms obtain cs where "characters_clause fmt (main_characters vs) = Inr cs"
    using characters_clause_valid by (auto simp add: valid_state_def)
  moreover from assms obtain cols where "colors_clause (primary_colors vs) = Inr cols"
    using colors_clause_valid by (auto simp add: valid_state_def)
  ultimately show ?thesis by (simp add: prompt_parts_def)
qed

lemma generate_consistent_prompt_returns:
  assumes "valid_state (visual_state m)"
  shows "\<exists>p. generate_consistent_prompt fmt m base segment is_video previous_frame =
           Inr (p, m\<lparr>visual_state := (visual_state m)\<lparr>current_segment := PStr segment\<rparr>\<rparr>)"
  using prompt_parts_valid [OF assms, of fmt base segment is_video previous_frame]
  by (auto simp add: generate_consistent_prompt_def)

text \<open>
  Claim C7. Whenever \<open>generate_consistent_prompt\<close> returns for a segment \<open>X\<close>, the
  new state has \<open>current_segment = X\<close> and differs from the old state in nothing else,
  and the prompt is the join of the parts built from the old state. On a valid state
  the call always returns. The prompt does not depend on the value \<open>current_segment\<close>
  had before the call.
\<close>

theorem current_segment_assigned_after_assembly:
  "(\<forall>p m'. generate_consistent_prompt fmt m base segment is_video previous_frame = Inr (p, m') \<longrightarrow>
      current_segment (visual_state m') = PStr segment \<and>
      m' = m\<lparr>visual_state := (visual_state m)\<lparr>current_segment := PStr segment\<rparr>\<rparr> \<and>
      (\<exists>parts. prompt_parts fmt (visual_state m) base segment is_video previous_frame = Inr parts \<and>
               p = str_join '' '' parts))
   \<and> (valid_state (visual_state m) \<longrightarrow>
        (\<exists>p m'. generate_consistent_prompt fmt m base segment is_video previous_frame = Inr (p, m')))
   \<and> returned_prompt
        (generate_consistent_prompt fmt
           (m\<lparr>visual_state := (visual_state m)\<lparr>current_segment := c\<rparr>\<rparr>)
           base segment is_video previous_frame) =
      returned_prompt (generate_consistent_prompt fmt m base segment is_video previous_frame)"
proof (intro conjI allI impI)
  fix p m'
  assume g: "generate_consistent_prompt fmt m base segment is_video previous_frame = Inr (p, m')"
  then show "current_segment (visual_state m') = PStr segment"
    by (auto simp add: generate_consistent_prompt_def split: sum.splits)
  from g show "m' = m\<lparr>visual_state := (visual_state m)\<lparr>current_segment := PStr segment\<rparr>\<rparr>"
    by (auto simp add: generate_consistent_prompt_def split: sum.splits)
  from g show "\<exists>parts. prompt_parts fmt (visual_state m) base segment is_video previous_frame = Inr parts \<and>
               p = str_join '' '' parts"
    by (auto simp add: generate_consistent_prompt_def split: sum.splits)
next
  assume "valid_state (visual_state m)"
  from generate_consistent_prompt_returns [OF this]
  show "\<exists>p m'. generate_consistent_prompt fmt m base segment is_video previous_frame = Inr (p, m')"
    by blast
next
  show "returned_prompt
        (generate_consistent_prompt fmt
           (m\<lparr>visual_state := (visual_state m)\<lparr>current_segment := c\<rparr>\<rparr>)
           base segment is_video previous_frame) =
      returned_prompt (generate_consistent_prompt fmt m base segment is_video previous_frame)"
    by (simp add: returned_prompt_def generate_consistent_prompt_def
        prompt_parts_segment_irrelevant split: sum.splits)
qed

subsection \<open>The helper around the prompt\<close>

text \<open>
  Claim C9. \<open>enhance_video_prompt\<close> returns the base prompt, and the helper as it was,
  when no manager is initialised; and it returns the base prompt when
  \<open>generate_consistent_prompt\<close> raises. It has no exception of its own: the handler
  catches every one.
\<close>

theorem enhance_video_prompt_falls_back:
  "(consistency_manager h = None \<longrightarrow> enhance_video_prompt fmt h base_prompt segment = (base_prompt, h))
   \<and> (\<forall>m e. consistency_manager h = Some m \<and>
             generate_consistent_prompt fmt m base_prompt segment True (previous_scene h) = Inl e \<longrightarrow>
        fst (enhance_video_prompt fmt h base_prompt segment) = base_prompt)"
  by (simp add: enhance_video_prompt_def)

text \<open>
  Claim C10. When \<open>generate_consistent_prompt\<close> returns, \<open>enhance_video_prompt\<close> sets
  \<open>previous_scene\<close> to \<open>Previous {segment} segment\<close>; when it raises, the helper,
  and with it \<open>previous_scene\<close>, is left as it was, as it is when there is no manager.
\<close>

theorem previous_scene_updated_only_on_success:
  "(\<forall>m p m'. consistency_manager h = Some m \<and>
       generate_consistent_prompt fmt m base_prompt segment True (previous_scene h) = Inr (p, m') \<longrightarrow>
       previous_scene (snd (enhance_video_prompt fmt h base_prompt segment)) =
         Some (''Previous '' @ segment @ '' segment''))
   \<and> (\<forall>m e. consistency_manager h = Some m \<and>
       generate_consistent_prompt fmt m base_prompt segment True (previous_scene h) = Inl e \<longrightarrow>
       snd (enhance_video_prompt fmt h base_prompt segment) = h)
   \<and> (consistency_manager h = None \<longrightarrow>
       snd (enhance_video_prompt fmt h base_prompt segment) = h)"
  by (simp add: enhance_video_prompt_def)

subsection \<open>Snapshots: the round trip\<close>

lemma post_init_id:
  "primary_colors vs \<noteq> PNone \<Longrightarrow> main_characters vs \<noteq> PNone \<Longrightarrow> post_init vs = vs"
  by (simp add: post_init_def)

lemma from_dict_to_dict:
  assumes "primary_colors vs \<noteq> PNone" and "main_characters vs \<noteq> PNone"
  shows "from_dict (to_dict vs) = Inr vs"
proof -
  have keys: "list_all (\<lambda>k. k \<in> set field_names) (map fst (to_dict vs))"
    by (simp add: to_dict_def field_names_def)
  have "\<lparr> reference_image_url = dict_get (to_dict vs) ''reference_image_url'' PNone,
            primary_colors = dict_get (to_dict vs) ''primary_colors'' PNone,
            art_style = dict_get (to_dict vs) ''art_style'' (PStr ''hand-drawn cartoon illustration''),
            main_characters = dict_get (to_dict vs) ''main_characters'' PNone,
            setting = dict_get (to_dict vs) ''setting'' (PStr ''''),
            lighting = dict_get (to_dict vs) ''lighting'' (PStr ''bright, warm lighting''),
            atmosphere = dict_get (to_dict vs) ''atmosphere'' (PStr ''cheerful, educational''),
            camera_style = dict_get (to_dict vs) ''camera_style'' (PStr ''medium shot, eye level''),
            composition = dict_get (to_dict vs) ''composition'' (PStr ''centered, balanced''),
            current_segment = dict_get (to_dict vs) ''current_segment'' (PStr ''hook''),
            previous_scene_summary = dict_get (to_dict vs) ''previous_scene_summary'' (PStr ''''),
            seed = dict_get (to_dict vs) ''seed'' PNone \<rparr> = vs"
    by (cases vs) (simp add: to_dict_def dict_get_def)
  with keys assms show ?thesis
    by (simp add: from_dict_def post_init_id)
qed

lemma valid_state_sequences:
  "valid_state vs \<Longrightarrow> primary_colors vs \<noteq> PNone \<and> main_characters vs \<noteq> PNone"
  by (auto simp add: valid_state_def is_str_list_def is_character_list_def)

text \<open>
  Claim C2. For a valid state, \<open>from_dict (to_dict s)\<close> is \<open>s\<close>, loading the snapshot
  a manager saved gives the manager back, and \<open>generate_consistent_prompt\<close> answers
  alike on the reloaded manager and on the original.
\<close>

theorem snapshot_round_trip:
  assumes "valid_state (visual_state m)"
  shows "from_dict (to_dict (visual_state m)) = Inr (visual_state m)
       \<and> load_state m (get_state m) = Inr m
       \<and> (case load_state m (get_state m) of
            Inl e \<Rightarrow> False
          | Inr m' \<Rightarrow>
              generate_consistent_prompt fmt m' base segment is_video previous_frame =
              generate_consistent_prompt fmt m base segment is_video previous_frame)"
proof -
  from valid_state_sequences [OF assms]
  have rt: "from_dict (to_dict (visual_state m)) = Inr (visual_state m)"
    by (simp add: from_dict_to_dict)
  then have "load_state m (get_state m) = Inr m"
    by (simp add: load_state_def get_state_def)
  with rt show ?thesis by simp
qed

subsection \<open>Snapshots: what a loaded state holds\<close>

lemma VisualState_init_eq:
  "VisualState_init =
       \<lparr> reference_image_url = PNone,
         primary_colors = PList [],
         art_style = PStr ''hand-drawn cartoon illustration'',
         main_characters = PList [],
         setting = PStr '''',
         lighting = PStr ''bright, warm lighting'',
         atmosphere = PStr ''cheerful, educational'',
         camera_style = PStr ''medium shot, eye level'',
         composition = PStr ''centered, balanced'',
         current_segment = PStr ''hook'',
         previous_scene_summary = PStr '''',
         seed = PNone \<rparr>"
  by (simp add: VisualState_init_def post_init_def)

lemma from_dict_fails_iff:
  "isl (from_dict data) \<longleftrightarrow> \<not> set (map fst data) \<subseteq> set field_names"
  by (auto simp add: from_dict_def list_all_iff)

lemma from_dict_error: "from_dict data = Inl e \<Longrightarrow> e = TypeError"
  by (simp add: from_dict_def split: if_splits)



lemma to_dict_get:
  "dict_get (to_dict vs) ''reference_image_url'' PNone = reference_image_url vs"
  "dict_get (to_dict vs) ''primary_colors'' PNone = primary_colors vs"
  "dict_get (to_dict vs) ''art_style'' PNone = art_style vs"
  "dict_get (to_dict vs) ''main_characters'' PNone = main_characters vs"
  "dict_get (to_dict vs) ''setting'' PNone = setting vs"
  "dict_get (to_dict vs) ''lighting'' PNone = lighting vs"
  "dict_get (to_dict vs) ''atmosphere'' PNone = atmosphere vs"
  "dict_get (to_dict vs) ''camera_style'' PNone = camera_style vs"
  "dict_get (to_dict vs) ''composition'' PNone = composition vs"
  "dict_get (to_dict vs) ''current_segment'' PNone = current_segment vs"
  "dict_get (to_dict vs) ''previous_scene_summary'' PNone = previous_scene_summary vs"
  "dict_get (to_dict vs) ''seed'' PNone = seed vs"
  by (simp_all add: to_dict_def dict_get_def)

lemma post_init_fields:
  "reference_image_url (post_init vs) = reference_image_url vs"
  "primary_colors (post_init vs) = (if primary_colors vs = PNone then PList [] else primary_colors vs)"
  "art_style (post_init vs) = art_style vs"
  "main_characters (post_init vs) = (if main_characters vs = PNone then PList [] else main_characters vs)"
  "setting (post_init vs) = setting vs"
  "lighting (post_init vs) = lighting vs"
  "atmosphere (post_init vs) = atmosphere vs"
  "camera_style (post_init vs) = camera_style vs"
  "composition (post_init vs) = composition vs"
  "current_segment (post_init vs) = current_segment vs"
  "previous_scene_summary (post_init vs) = previous_scene_summary vs"
  "seed (post_init vs) = seed vs"
  by (simp_all add: post_init_def Let_def)

lemma from_dict_fields:
  assumes "from_dict data = Inr vs" and "k \<in> set field_names"
  shows "dict_get (to_dict vs) k PNone = stored_value data k"
proof -
  from assms(1) have vs: "vs = post_init
          \<lparr> reference_image_url = dict_get data ''reference_image_url'' PNone,
            primary_colors = dict_get data ''primary_colors'' PNone,
            art_style = dict_get data ''art_style'' (PStr ''hand-drawn cartoon illustration''),
            main_characters = dict_get data ''main_characters'' PNone,
            setting = dict_get data ''setting'' (PStr ''''),
            lighting = dict_get data ''lighting'' (PStr ''bright, warm lighting''),
            atmosphere = dict_get data ''atmosphere'' (PStr ''cheerful, educational''),
            camera_style = dict_get data ''camera_style'' (PStr ''medium shot, eye level''),
            composition = dict_get data ''composition'' (PStr ''centered, balanced''),
            current_segment = dict_get data ''current_segment'' (PStr ''hook''),
            previous_scene_summary = dict_get data ''previous_scene_summary'' (PStr ''''),
            seed = dict_get data ''seed'' PNone \<rparr>"
    by (simp add: from_dict_def split: if_splits)
  note defs = stored_value_def sequence_field_def to_dict_get post_init_fields
    VisualState_init_eq Let_def
  have "list_all (\<lambda>k. dict_get (to_dict vs) k PNone = stored_value data k) field_names"
    unfolding field_names_def list.pred_inject vs
    by (intro conjI TrueI) (simp_all add: defs, simp_all add: dict_get_def split: option.splits)
  with assms(2) show ?thesis by (simp add: list_all_iff)
qed

subsection \<open>The examples, evaluated\<close>

lemma VisualConsistencyManager_init_state:
  "visual_state (VisualConsistencyManager_init k) = VisualState_init"
  by (simp add: VisualConsistencyManager_init_def)

lemma fresh_helper_eq:
  "fresh_helper = example_helper\<lparr>consistency_manager := Some (VisualConsistencyManager_init None)\<rparr>"
  by (simp add: fresh_helper_def initialize_def)

lemma broken_snapshot_loads:
  "from_dict broken_snapshot =
     Inr (VisualState_init\<lparr>main_characters := PList [PDict [(''name'', PStr ''Drippy'')]]\<rparr>)"
  by (simp add: from_dict_def broken_snapshot_def field_names_def dict_get_def post_init_def
      VisualState_init_eq)

lemma broken_helper_eq:
  "broken_helper = example_helper\<lparr>consistency_manager :=
     Some \<lparr> openrouter_api_key = None,
            visual_state = VisualState_init
              \<lparr>main_characters := PList [PDict [(''name'', PStr ''Drippy'')]]\<rparr> \<rparr>\<rparr>"
  by (simp add: broken_helper_def initialize_def load_state_def broken_snapshot_loads
      VisualConsistencyManager_init_def)

lemma broken_prompt_raises:
  "prompt_parts fmt (VisualState_init\<lparr>main_characters := PList [PDict [(''name'', PStr ''Drippy'')]]\<rparr>)
     base segment is_video previous_frame = Inl KeyError"
  by (simp add: prompt_parts_def characters_clause_def py_iter_def character_part_def
      getitem_str_def)

lemma default_prompt_parts:
  "prompt_parts fmt VisualState_init base ''hook'' is_video previous_frame =
     Inr ([base, ''Art style: hand-drawn cartoon illustration.'',
           ''bright, warm lighting, cheerful, educational.''] @
          video_clause is_video previous_frame @
          [''medium shot, eye level, centered, balanced.''])"
  by (simp add: prompt_parts_def characters_clause_def colors_clause_def continuity_clause_def
      VisualState_init_eq py_str_def)

theorem hook_has_no_continuity_clause_witness:
  "''concept'' \<noteq> ''hook'' \<and> truthy (previous_scene_summary (visual_state sprout_manager)) \<and>
   returned_prompt
     (generate_consistent_prompt example_fmt sprout_manager ''Leaves grow'' ''hook'' False None) =
     Inr (''Leaves grow Art style: hand-drawn cartoon illustration. '' @
          ''bright, warm lighting, cheerful, educational. '' @
          ''medium shot, eye level, centered, balanced.'') \<and>
   returned_prompt
     (generate_consistent_prompt example_fmt sprout_manager ''Leaves grow'' ''concept'' False None) =
     Inr (''Continuing from previous scene: A seed sprouts. '' @
          ''Leaves grow Art style: hand-drawn cartoon illustration. '' @
          ''bright, warm lighting, cheerful, educational. '' @
          ''medium shot, eye level, centered, balanced.'')"
proof -
  have s: "visual_state sprout_manager = VisualState_init\<lparr>previous_scene_summary := PStr ''A seed sprouts''\<rparr>"
    by (simp add: sprout_manager_def update_scene_context_def VisualConsistencyManager_init_def)
  have h: "returned_prompt
     (generate_consistent_prompt example_fmt sprout_manager ''Leaves grow'' ''hook'' False None) =
     Inr (''Leaves grow Art style: hand-drawn cartoon illustration. '' @
          ''bright, warm lighting, cheerful, educational. '' @
          ''medium shot, eye level, centered, balanced.'')"
    by (simp add: returned_prompt_def generate_consistent_prompt_def s
        prompt_parts_summary_irrelevant default_prompt_parts video_clause_def)
  have t: "truthy (previous_scene_summary (visual_state sprout_manager))"
    by (simp add: s)
  from hook_has_no_continuity_clause
    [of example_fmt sprout_manager "''Leaves grow''" False None "''concept''"] t h
  show ?thesis by (simp add: s py_str_def)
qed

lemma VisualState_init_valid: "valid_state VisualState_init"
  by (simp add: valid_state_def VisualState_init_eq is_opt_str_def is_str_list_def is_str_def
      is_character_list_def is_opt_int_def)

theorem current_segment_assigned_after_assembly_witness:
  "valid_state (visual_state sprout_manager) \<and>
   generate_consistent_prompt example_fmt sprout_manager ''Leaves grow'' ''concept'' False None =
     Inr (''Continuing from previous scene: A seed sprouts. '' @
          ''Leaves grow Art style: hand-drawn cartoon illustration. '' @
          ''bright, warm lighting, cheerful, educational. '' @
          ''medium shot, eye level, centered, balanced.'',
          sprout_manager\<lparr>visual_state := (visual_state sprout_manager)\<lparr>current_segment := PStr ''concept''\<rparr>\<rparr>) \<and>
   current_segment (visual_state sprout_manager) = PStr ''hook''"
proof -
  have s: "visual_state sprout_manager = VisualState_init\<lparr>previous_scene_summary := PStr ''A seed sprouts''\<rparr>"
    by (simp add: sprout_manager_def update_scene_context_def VisualConsistencyManager_init_def)
  have v: "valid_state (visual_state sprout_manager)"
    using VisualState_init_valid by (simp add: s valid_state_def is_str_def)
  have p: "prompt_parts example_fmt (visual_state sprout_manager) ''Leaves grow'' ''concept'' False None =
     Inr [''Continuing from previous scene: A seed sprouts.'', ''Leaves grow'',
          ''Art style: hand-drawn cartoon illustration.'',
          ''bright, warm lighting, cheerful, educational.'',
          ''medium shot, eye level, centered, balanced.'']"
    by (subst prompt_parts_split)
      (simp add: s prompt_parts_summary_irrelevant default_prompt_parts video_clause_def
        continuity_clause_def py_str_def)
  have c: "current_segment (visual_state sprout_manager) = PStr ''hook''"
    by (simp add: s VisualState_init_eq)
  from current_segment_assigned_after_assembly
    [of example_fmt sprout_manager "''Leaves grow''" "''concept''" False None "PStr ''hook''"] v
  obtain q m' where g: "generate_consistent_prompt example_fmt sprout_manager ''Leaves grow''
      ''concept'' False None = Inr (q, m')"
    by blast
  with current_segment_assigned_after_assembly
    [of example_fmt sprout_manager "''Leaves grow''" "''concept''" False None "PStr ''hook''"]
  have "m' = sprout_manager\<lparr>visual_state := (visual_state sprout_manager)\<lparr>current_segment := PStr ''concept''\<rparr>\<rparr>"
    and "\<exists>parts. prompt_parts example_fmt (visual_state sprout_manager) ''Leaves grow'' ''concept'' False None = Inr parts \<and> q = str_join '' '' parts"
    by blast+
  with g p v c show ?thesis by simp
qed

theorem enhance_video_prompt_falls_back_witness:
  "consistency_manager example_helper = None \<and>
   enhance_video_prompt example_fmt example_helper ''A droplet falls'' ''hook'' =
     (''A droplet falls'', example_helper) \<and>
   (\<exists>m. consistency_manager broken_helper = Some m \<and>
        generate_consistent_prompt example_fmt m ''A droplet falls'' ''concept'' True
          (previous_scene broken_helper) = Inl KeyError) \<and>
   fst (enhance_video_prompt example_fmt broken_helper ''A droplet falls'' ''concept'') =
     ''A droplet falls''"
proof -
  have n: "consistency_manager example_helper = None"
    by (simp add: example_helper_def VideoConsistencyHelper_init_def)
  have b: "\<exists>m. consistency_manager broken_helper = Some m \<and>
        generate_consistent_prompt example_fmt m ''A droplet falls'' ''concept'' True
          (previous_scene broken_helper) = Inl KeyError"
    by (simp add: broken_helper_eq generate_consistent_prompt_def broken_prompt_raises)
  from enhance_video_prompt_falls_back [of example_helper example_fmt "''A droplet falls''" "''hook''"]
    enhance_video_prompt_falls_back [of broken_helper example_fmt "''A droplet falls''" "''concept''"]
    n b
  show ?thesis by blast
qed

theorem previous_scene_updated_only_on_success_witness:
  "(\<exists>m p m'. consistency_manager fresh_helper = Some m \<and>
        generate_consistent_prompt example_fmt m ''A droplet falls'' ''hook'' True
          (previous_scene fresh_helper) = Inr (p, m')) \<and>
   previous_scene fresh_helper = None \<and>
   previous_scene (snd (enhance_video_prompt example_fmt fresh_helper ''A droplet falls'' ''hook'')) =
     Some ''Previous hook segment'' \<and>
   (\<exists>m. consistency_manager broken_helper = Some m \<and>
        generate_consistent_prompt example_fmt m ''A droplet falls'' ''concept'' True
          (previous_scene broken_helper) = Inl KeyError) \<and>
   snd (enhance_video_prompt example_fmt broken_helper ''A droplet falls'' ''concept'') = broken_helper"
proof -
  have f: "\<exists>m p m'. consistency_manager fresh_helper = Some m \<and>
        generate_consistent_prompt example_fmt m ''A droplet falls'' ''hook'' True
          (previous_scene fresh_helper) = Inr (p, m')"
    by (simp add: fresh_helper_eq generate_consistent_prompt_def
        VisualConsistencyManager_init_state default_prompt_parts)
  have pn: "previous_scene fresh_helper = None"
    by (simp add: fresh_helper_eq example_helper_def VideoConsistencyHelper_init_def)
  have b: "\<exists>m. consistency_manager broken_helper = Some m \<and>
        generate_consistent_prompt example_fmt m ''A droplet falls'' ''concept'' True
          (previous_scene broken_helper) = Inl KeyError"
    by (simp add: broken_helper_eq generate_consistent_prompt_def broken_prompt_raises)
  from previous_scene_updated_only_on_success
      [of fresh_helper example_fmt "''A droplet falls''" "''hook''"] f
  have 1: "previous_scene (snd (enhance_video_prompt example_fmt fresh_helper ''A droplet falls'' ''hook'')) =
     Some (''Previous '' @ ''hook'' @ '' segment'')"
    by blast
  from previous_scene_updated_only_on_success
      [of broken_helper example_fmt "''A droplet falls''" "''concept''"] b
  have 2: "snd (enhance_video_prompt example_fmt broken_helper ''A droplet falls'' ''concept'') = broken_helper"
    by blast
  from f pn b 1 2 show ?thesis by simp
qed

theorem snapshot_round_trip_witness:
  "valid_state (visual_state sprout_manager) \<and>
   from_dict (to_dict (visual_state sprout_manager)) = Inr (visual_state sprout_manager) \<and>
   load_state sprout_manager (get_state sprout_manager) = Inr sprout_manager"
proof -
  have s: "visual_state sprout_manager = VisualState_init\<lparr>previous_scene_summary := PStr ''A seed sprouts''\<rparr>"
    by (simp add: sprout_manager_def update_scene_context_def VisualConsistencyManager_init_def)
  have v: "valid_state (visual_state sprout_manager)"
    using VisualState_init_valid by (simp add: s valid_state_def is_str_def)
  from snapshot_round_trip [OF v, of example_fmt "''Leaves grow''" "''concept''" False None] v
  show ?thesis by simp
qed

subsection \<open>Snapshots: what deserialisation checks\<close>

lemma load_state_from_dict:
  "load_state m data = map_sum id (\<lambda>vs. m\<lparr>visual_state := vs\<rparr>) (from_dict data)"
  by (simp add: load_state_def split: sum.splits)

lemma from_dict_keys_only:
  "map fst data' = map fst data \<Longrightarrow> isl (from_dict data') = isl (from_dict data)"
  by (simp add: from_dict_fails_iff)

text \<open>
  Claim C8, as the code has it. \<open>from_dict\<close> (and \<open>load_state\<close>, which only wraps it)
  validates nothing but the key names: it raises, a TypeError, exactly when the snapshot
  has a key that is no field of the state; whether it raises depends on the keys alone,
  never on the shape of a value; and when it returns, every field holds the snapshot's
  value as it came, or the construction default where the key is absent (a \<open>None\<close>
  sequence becoming the empty list).
\<close>

theorem from_dict_checks_keys_only:
  "(isl (from_dict data) \<longleftrightarrow> \<not> set (map fst data) \<subseteq> set field_names)
   \<and> (\<forall>e. from_dict data = Inl e \<longrightarrow> e = TypeError)
   \<and> (map fst data' = map fst data \<longrightarrow> isl (from_dict data') = isl (from_dict data))
   \<and> (\<forall>vs. from_dict data = Inr vs \<longrightarrow>
         (\<forall>k \<in> set field_names. dict_get (to_dict vs) k PNone = stored_value data k))
   \<and> load_state m data = map_sum id (\<lambda>vs. m\<lparr>visual_state := vs\<rparr>) (from_dict data)"
  using from_dict_fails_iff [of data] from_dict_error [of data] from_dict_keys_only [of data' data]
    from_dict_fields [of data] load_state_from_dict [of m data]
  by blast

text \<open>
  The claim as stated fails: the empty snapshot, in which every key is absent, loads
  as the default state, and an integer for \<open>art_style\<close> is stored unchecked.
\<close>

theorem from_dict_defaults_silently:
  "from_dict [] = Inr VisualState_init \<and>
   from_dict [(''art_style'', PInt 7)] = Inr (VisualState_init\<lparr>art_style := PInt 7\<rparr>) \<and>
   load_state (VisualConsistencyManager_init None) [] = Inr (VisualConsistencyManager_init None)"
  by (simp add: from_dict_def load_state_def dict_get_def field_names_def VisualState_init_eq
      post_init_def VisualConsistencyManager_init_def)

theorem from_dict_checks_keys_only_witness:
  "\<not> isl (from_dict [(''art_style'', PInt 7)]) \<and>
   isl (from_dict [(''colour'', PStr ''red'')]) \<and>
   from_dict [(''colour'', PStr ''red'')] = Inl TypeError \<and>
   \<not> isl (from_dict [(''art_style'', PStr ''ink'')]) \<and>
   (\<exists>vs. from_dict [(''art_style'', PInt 7)] = Inr vs \<and>
      dict_get (to_dict vs) ''art_style'' PNone = PInt 7 \<and>
      dict_get (to_dict vs) ''lighting'' PNone = PStr ''bright, warm lighting'' \<and>
      dict_get (to_dict vs) ''primary_colors'' PNone = PList [])"
proof -
  let ?d = "[(''art_style'', PInt 7)]"
  let ?d' = "[(''art_style'', PStr ''ink'')]"
  let ?c = "[(''colour'', PStr ''red'')]"
  note t = from_dict_checks_keys_only [of ?d ?d' "VisualConsistencyManager_init None"]
  note u = from_dict_checks_keys_only [of ?c ?c "VisualConsistencyManager_init None"]
  have k: "set (map fst ?d) \<subseteq> set field_names" "map fst ?d' = map fst ?d"
    "\<not> set (map fst ?c) \<subseteq> set field_names"
    "''art_style'' \<in> set field_names" "''lighting'' \<in> set field_names"
    "''primary_colors'' \<in> set field_names"
    by (simp_all add: field_names_def)
  have s: "stored_value ?d ''art_style'' = PInt 7"
    "stored_value ?d ''lighting'' = PStr ''bright, warm lighting''"
    "stored_value ?d ''primary_colors'' = PList []"
    by (simp_all add: stored_value_def dict_get_def to_dict_def VisualState_init_eq
        sequence_field_def)
  from t k have 1: "\<not> isl (from_dict ?d)" "\<not> isl (from_dict ?d')" by blast+
  from u k have 2: "isl (from_dict ?c)" by blast
  with u have 3: "from_dict ?c = Inl TypeError" by (cases "from_dict ?c") auto
  from 1 obtain vs where vs: "from_dict ?d = Inr vs" by (cases "from_dict ?d") auto
  with t k s have "dict_get (to_dict vs) ''art_style'' PNone = PInt 7"
    "dict_get (to_dict vs) ''lighting'' PNone = PStr ''bright, warm lighting''"
    "dict_get (to_dict vs) ''primary_colors'' PNone = PList []"
    by metis+
  with 1 2 3 vs show ?thesis by blast
qed

subsection \<open>Style extraction\<close>

text \<open>
  Claim C4, as the code has it. Once the diagram was downloaded (status 200),
  \<open>reference_image_url\<close> is the diagram URL whatever the style analysis gave, also
  when it failed; when the download fails, by another status or by an exception, the
  call returns the empty dictionary and the manager is left as it was.
\<close>

theorem reference_url_set_after_download:
  "reference_image_url
     (visual_state (snd (extract_style_from_diagram json_loads m diagram_url (GetResponse 200) reply))) =
     PStr diagram_url
   \<and> (fetched \<noteq> GetResponse 200 \<longrightarrow>
        extract_style_from_diagram json_loads m diagram_url fetched reply = (PDict [], m))"
proof (intro conjI impI)
  show "reference_image_url
     (visual_state (snd (extract_style_from_diagram json_loads m diagram_url (GetResponse 200) reply))) =
     PStr diagram_url"
    by (simp add: extract_style_from_diagram_def Let_def split: pyval.splits)
next
  assume "fetched \<noteq> GetResponse 200"
  then show "extract_style_from_diagram json_loads m diagram_url fetched reply = (PDict [], m)"
    by (cases fetched) (simp_all add: extract_style_from_diagram_def)
qed

text \<open>
  The claim as stated fails: after a download answered with status 404, or raised, the
  reference URL of a fresh manager is still \<open>None\<close>.
\<close>

theorem failed_fetch_leaves_reference_unset:
  "reference_image_url
     (visual_state
        (snd (extract_style_from_diagram watercolor_loads (VisualConsistencyManager_init None)
                diagram_url_example (GetResponse 404) PostRaised))) = PNone \<and>
   reference_image_url
     (visual_state
        (snd (extract_style_from_diagram watercolor_loads (VisualConsistencyManager_init None)
                diagram_url_example GetRaised PostRaised))) = PNone"
  by (simp add: extract_style_from_diagram_def VisualConsistencyManager_init_def VisualState_init_eq)

theorem reference_url_set_after_download_witness:
  "reference_image_url
     (visual_state
        (snd (extract_style_from_diagram watercolor_loads palette_manager diagram_url_example
                (GetResponse 200) PostRaised))) = PStr diagram_url_example \<and>
   GetResponse 404 \<noteq> GetResponse 200 \<and>
   extract_style_from_diagram watercolor_loads palette_manager diagram_url_example
     (GetResponse 404) PostRaised = (PDict [], palette_manager)"
  using reference_url_set_after_download
    [of watercolor_loads palette_manager diagram_url_example PostRaised "GetResponse 404"]
  by simp

text \<open>
  Claim C3 at a failing input. The manager holds the palette red, gold; the vision model
  answers with an art style and no \<open>primary_colors\<close> key. The art style is
  overwritten and the atmosphere kept, as the claim says, but the palette is replaced by
  the empty list instead of keeping its prior value: \<open>primary_colors\<close> is read with
  the default \<open>[]\<close> where its two neighbours are read with the prior value as default.
\<close>

theorem absent_primary_colors_reset:
  "extract_style_from_diagram watercolor_loads palette_manager diagram_url_example
     (GetResponse 200) watercolor_reply =
   (PDict [(''art_style'', PStr ''watercolor'')],
    palette_manager\<lparr>visual_state := (visual_state palette_manager)
      \<lparr>reference_image_url := PStr diagram_url_example,
       art_style := PStr ''watercolor'',
       primary_colors := PList []\<rparr>\<rparr>)"
  by (simp add: extract_style_from_diagram_def palette_manager_def key_set_def
      analyze_with_vision_def watercolor_reply_def vision_content_def py_get_def dict_get_def
      getitem_0_def watercolor_loads_def Let_def)

subsection \<open>Session initialisation\<close>

text \<open>
  Claim C6. For the topic Photosynthesis, the age \<open>"4"\<close> (which \<open>int()\<close> reads as 4)
  and the interest dinosaurs, \<open>initialize_from_video_session\<close> sets the setting, the
  art style of the youngest band and the atmosphere as stated. Whenever \<open>int(child_age)\<close>
  raises, the art style keeps its prior value; the function has no exception of its own,
  the bare \<open>except\<close> swallowing every one.
\<close>

theorem initialize_from_video_session_bands:
  "(int_of_str ''4'' = Some 4 \<longrightarrow>
      setting (visual_state (initialize_from_video_session fmt int_of_str m
         [(''topic'', PStr ''Photosynthesis''), (''child_age'', PStr ''4''),
          (''child_interest'', PStr ''dinosaurs'')])) = PStr ''Scene related to Photosynthesis'' \<and>
      art_style (visual_state (initialize_from_video_session fmt int_of_str m
         [(''topic'', PStr ''Photosynthesis''), (''child_age'', PStr ''4''),
          (''child_interest'', PStr ''dinosaurs'')])) = PStr ''simple, bold shapes, primary colors'' \<and>
      atmosphere (visual_state (initialize_from_video_session fmt int_of_str m
         [(''topic'', PStr ''Photosynthesis''), (''child_age'', PStr ''4''),
          (''child_interest'', PStr ''dinosaurs'')])) = PStr ''engaging, dinosaurs themed'')
   \<and> (\<forall>e. py_int int_of_str (dict_get data ''child_age'' PNone) = Inl e \<longrightarrow>
         art_style (visual_state (initialize_from_video_session fmt int_of_str m data)) =
         art_style (visual_state m))"
proof (intro conjI impI allI)
  fix e
  assume "py_int int_of_str (dict_get data ''child_age'' PNone) = Inl e"
  then show "art_style (visual_state (initialize_from_video_session fmt int_of_str m data)) =
         art_style (visual_state m)"
    by (simp add: initialize_from_video_session_def Let_def)
next
  assume a: "int_of_str ''4'' = Some 4"
  let ?d = "[(''topic'', PStr ''Photosynthesis''), (''child_age'', PStr ''4''),
          (''child_interest'', PStr ''dinosaurs'')]"
  have g: "dict_get ?d ''topic'' (PStr '''') = PStr ''Photosynthesis''"
    "dict_get ?d ''child_age'' PNone = PStr ''4''"
    "dict_get ?d ''child_interest'' (PStr '''') = PStr ''dinosaurs''"
    by (simp_all add: dict_get_def)
  have i: "py_int int_of_str (PStr ''4'') = Inr 4"
    by (simp add: py_int_def a)
  show "setting (visual_state (initialize_from_video_session fmt int_of_str m ?d)) =
      PStr ''Scene related to Photosynthesis''"
    unfolding initialize_from_video_session_def g Let_def
    by (simp add: i py_str_def)
  show "art_style (visual_state (initialize_from_video_session fmt int_of_str m ?d)) =
      PStr ''simple, bold shapes, primary colors''"
    unfolding initialize_from_video_session_def g Let_def
    by (simp add: i py_str_def age_style_def)
  show "atmosphere (visual_state (initialize_from_video_session fmt int_of_str m ?d)) =
      PStr ''engaging, dinosaurs themed''"
    unfolding initialize_from_video_session_def g Let_def
    by (simp add: i py_str_def)
qed

theorem initialize_from_video_session_bands_witness:
  "int_of_digits ''4'' = Some 4 \<and>
   art_style (visual_state (initialize_from_video_session example_fmt int_of_digits
       (VisualConsistencyManager_init None)
       [(''topic'', PStr ''Photosynthesis''), (''child_age'', PStr ''4''),
        (''child_interest'', PStr ''dinosaurs'')])) = PStr ''simple, bold shapes, primary colors'' \<and>
   py_int int_of_digits (dict_get [(''child_age'', PStr ''not-a-number'')] ''child_age'' PNone) =
     Inl ValueError \<and>
   art_style (visual_state (initialize_from_video_session example_fmt int_of_digits
       (VisualConsistencyManager_init None) [(''child_age'', PStr ''not-a-number'')])) =
     PStr ''hand-drawn cartoon illustration''"
proof -
  have a: "int_of_digits ''4'' = Some 4"
    by (simp add: int_of_digits_def digit_value_def)
  have b: "py_int int_of_digits (dict_get [(''child_age'', PStr ''not-a-number'')] ''child_age'' PNone) =
     Inl ValueError"
    by (simp add: dict_get_def py_int_def int_of_digits_def digit_value_def)
  have c: "art_style (visual_state (VisualConsistencyManager_init None)) =
     PStr ''hand-drawn cartoon illustration''"
    by (simp add: VisualConsistencyManager_init_def VisualState_init_eq)
  from initialize_from_video_session_bands
    [of int_of_digits example_fmt "VisualConsistencyManager_init None"
        "[(''child_age'', PStr ''not-a-number'')]"] a b c
  show ?thesis by simp
qed

subsection \<open>Characters\<close>

lemma getitem_name_new_character: "getitem_str (new_character n d) ''name'' = Inr (PStr n)"
  by (simp add: getitem_str_def new_character_def)

lemma setitem_description_new_character:
  "setitem_str (new_character n d0) ''description'' (PStr d) = Inr (new_character n d)"
  by (simp add: setitem_str_def new_character_def)

lemma update_existing_character_list:
  "update_existing (map (\<lambda>e. new_character (fst e) (snd e)) al) name d =
     Inr (if name \<in> fst ` set al
          then Some (map (\<lambda>e. new_character (fst e) (snd e)) (AList.update name d al))
          else None)"
proof (induction al)
  case Nil
  show ?case by simp
next
  case (Cons a al)
  show ?case
  proof (cases "fst a = name")
    case True
    then show ?thesis
      by (simp add: getitem_name_new_character setitem_description_new_character)
  next
    case False
    with Cons show ?thesis
      by (simp add: getitem_name_new_character)
  qed
qed

lemma update_absent: "name \<notin> fst ` set al \<Longrightarrow> AList.update name d al = al @ [(name, d)]"
  by (induction al) auto

lemma characters_of_with_characters:
  "main_characters (visual_state (with_characters m al)) = character_list al"
  by (simp add: with_characters_def)

lemma with_characters_twice: "with_characters (with_characters m al) al' = with_characters m al'"
  by (simp add: with_characters_def)

lemma with_characters_same:
  "main_characters (visual_state m) = character_list al \<Longrightarrow> with_characters m al = m"
  by (simp add: with_characters_def)

lemma define_character_character_list:
  assumes "main_characters (visual_state m) = character_list al"
  shows "define_character m name d = Inr (with_characters m (AList.update name d al))"
proof (cases "name \<in> fst ` set al")
  case True
  with assms show ?thesis
    by (simp add: define_character_def character_list_def py_iter_def
        update_existing_character_list with_characters_def)
next
  case False
  with assms show ?thesis
    by (simp add: define_character_def character_list_def py_iter_def
        update_existing_character_list with_characters_def update_absent)
qed

lemma define_characters_character_list:
  "main_characters (visual_state m) = character_list al \<Longrightarrow>
   define_characters m calls =
     Inr (with_characters m (fold (\<lambda>c. AList.update (fst c) (snd c)) calls al))"
proof (induction calls arbitrary: m al)
  case Nil
  then show ?case by (simp add: with_characters_same)
next
  case (Cons c calls)
  let ?al = "AList.update (fst c) (snd c) al"
  have "define_character m (fst c) (snd c) = Inr (with_characters m ?al)"
    using Cons.prems by (rule define_character_character_list)
  moreover have "define_characters (with_characters m ?al) calls =
      Inr (with_characters (with_characters m ?al) (fold (\<lambda>c. AList.update (fst c) (snd c)) calls ?al))"
    by (rule Cons.IH) (rule characters_of_with_characters)
  ultimately show ?case by (simp add: with_characters_twice)
qed

lemma distinct_fold_update:
  "distinct (map fst al) \<Longrightarrow> distinct (map fst (fold (\<lambda>c. AList.update (fst c) (snd c)) calls al))"
  by (induction calls arbitrary: al) (simp_all add: AList.distinct_update)

lemma fold_update_fresh:
  "distinct (map fst (al @ calls)) \<Longrightarrow> fold (\<lambda>c. AList.update (fst c) (snd c)) calls al = al @ calls"
proof (induction calls arbitrary: al)
  case Nil
  show ?case by simp
next
  case (Cons c calls)
  from Cons.prems have "fst c \<notin> fst ` set al" by auto
  then have u: "AList.update (fst c) (snd c) al = al @ [c]"
    by (simp add: update_absent)
  from Cons.prems have "distinct (map fst ((al @ [c]) @ calls))" by simp
  from Cons.IH [OF this] u show ?case by simp
qed

lemma filter_update_same:
  "distinct (map fst al) \<Longrightarrow> filter (\<lambda>e. fst e = k) (AList.update k v al) = [(k, v)]"
proof (induction al)
  case Nil
  show ?case by simp
next
  case (Cons a al)
  show ?case
  proof (cases "fst a = k")
    case True
    from Cons.prems have "fst a \<notin> fst ` set al" by simp
    with True have "\<forall>e \<in> set al. fst e \<noteq> k" by (metis imageI)
    then have "filter (\<lambda>e. fst e = k) al = []" by (simp add: filter_empty_conv)
    with True show ?thesis by simp
  next
    case False
    with Cons show ?thesis by simp
  qed
qed

lemma filter_update_others:
  "filter (\<lambda>e. fst e \<noteq> k) (AList.update k v al) = filter (\<lambda>e. fst e \<noteq> k) al"
  by (induction al) auto

text \<open>
  Claim C5. On a manager whose characters are entries made by \<open>define_character\<close>, with
  one entry per name (as in a fresh manager, which has none): two calls with the same
  name leave exactly one entry of that name, with the later description, at the position
  the name had before (at the end when it is new), and every other entry as it was;
  calls with names that are new and distinct append their entries in call order; and
  after any sequence of calls there is still one entry per name. No call raises.
\<close>

theorem define_character_upserts:
  assumes "main_characters (visual_state m) = character_list al" and "distinct (map fst al)"
  shows "(\<exists>al'. define_characters m [(name, d1), (name, d2)] = Inr (with_characters m al') \<and>
            filter (\<lambda>e. fst e = name) al' = [(name, d2)] \<and>
            map fst al' = (if name \<in> set (map fst al) then map fst al else map fst al @ [name]) \<and>
            filter (\<lambda>e. fst e \<noteq> name) al' = filter (\<lambda>e. fst e \<noteq> name) al)
       \<and> (distinct (map fst (al @ calls)) \<longrightarrow>
            define_characters m calls = Inr (with_characters m (al @ calls)))
       \<and> (\<exists>al'. define_characters m calls = Inr (with_characters m al') \<and> distinct (map fst al'))"
proof (intro conjI impI)
  let ?al' = "AList.update name d2 al"
  have "define_characters m [(name, d1), (name, d2)] = Inr (with_characters m ?al')"
    using define_characters_character_list [OF assms(1), of "[(name, d1), (name, d2)]"] by simp
  moreover have "filter (\<lambda>e. fst e = name) ?al' = [(name, d2)]"
    using assms(2) by (rule filter_update_same)
  moreover have "map fst ?al' = (if name \<in> set (map fst al) then map fst al else map fst al @ [name])"
    by (rule AList.update_keys)
  moreover have "filter (\<lambda>e. fst e \<noteq> name) ?al' = filter (\<lambda>e. fst e \<noteq> name) al"
    by (rule filter_update_others)
  ultimately show "\<exists>al'. define_characters m [(name, d1), (name, d2)] = Inr (with_characters m al') \<and>
            filter (\<lambda>e. fst e = name) al' = [(name, d2)] \<and>
            map fst al' = (if name \<in> set (map fst al) then map fst al else map fst al @ [name]) \<and>
            filter (\<lambda>e. fst e \<noteq> name) al' = filter (\<lambda>e. fst e \<noteq> name) al"
    by blast
next
  assume "distinct (map fst (al @ calls))"
  then show "define_characters m calls = Inr (with_characters m (al @ calls))"
    using define_characters_character_list [OF assms(1), of calls] by (simp add: fold_update_fresh)
next
  show "\<exists>al'. define_characters m calls = Inr (with_characters m al') \<and> distinct (map fst al')"
    using define_characters_character_list [OF assms(1), of calls]
      distinct_fold_update [OF assms(2), of calls]
    by blast
qed

lemma fresh_manager_characters:
  "main_characters (visual_state (VisualConsistencyManager_init k)) = character_list []"
  by (simp add: VisualConsistencyManager_init_def VisualState_init_eq character_list_def)

theorem define_character_upserts_witness:
  "main_characters (visual_state (VisualConsistencyManager_init None)) = character_list [] \<and>
   distinct (map fst ([] :: (string \<times> string) list)) \<and>
   define_characters (VisualConsistencyManager_init None)
     [(''Drippy'', ''a blue droplet''), (''Drippy'', ''a smiling blue droplet'')] =
     Inr (with_characters (VisualConsistencyManager_init None)
            [(''Drippy'', ''a smiling blue droplet'')]) \<and>
   distinct (map fst ([] @ [(''Drippy'', ''a blue droplet''), (''Sunny'', ''a yellow sun'')])) \<and>
   define_characters (VisualConsistencyManager_init None)
     [(''Drippy'', ''a blue droplet''), (''Sunny'', ''a yellow sun'')] =
     Inr (with_characters (VisualConsistencyManager_init None)
            [(''Drippy'', ''a blue droplet''), (''Sunny'', ''a yellow sun'')])"
proof -
  let ?m = "VisualConsistencyManager_init None"
  let ?calls = "[(''Drippy'', ''a blue droplet''), (''Sunny'', ''a yellow sun'')]"
  have c: "main_characters (visual_state ?m) = character_list []"
    by (rule fresh_manager_characters)
  have d: "distinct (map fst ([] :: (string \<times> string) list))" by simp
  have e: "distinct (map fst ([] @ ?calls))" by simp
  note t = define_character_upserts [OF c d, of "''Drippy''" "''a blue droplet''"
      "''a smiling blue droplet''" ?calls]
  from t e have 2: "define_characters ?m ?calls = Inr (with_characters ?m ([] @ ?calls))"
    by blast
  from t obtain al' where
    r: "define_characters ?m [(''Drippy'', ''a blue droplet''), (''Drippy'', ''a smiling blue droplet'')] =
        Inr (with_characters ?m al')"
    and f: "filter (\<lambda>e. fst e = ''Drippy'') al' = [(''Drippy'', ''a smiling blue droplet'')]"
    and o: "filter (\<lambda>e. fst e \<noteq> ''Drippy'') al' = filter (\<lambda>e. fst e \<noteq> ''Drippy'') []"
    by blast
  from o have "\<forall>e \<in> set al'. fst e = ''Drippy''" by (simp add: filter_empty_conv)
  then have "filter (\<lambda>e. fst e = ''Drippy'') al' = al'" by (simp add: filter_id_conv)
  with f have "al' = [(''Drippy'', ''a smiling blue droplet'')]" by simp
  with r c d e 2 show ?thesis by simp
qed

end
